theory Spec2Isabelle
  imports Complex_Main
begin

section \<open>Values, exceptions and the shared simulation\<close>

text \<open>
  The program is one Flask module, \<^verbatim>\<open>app.py\<close>. At import time it builds a fuzzy
  control system with scikit-fuzzy and keeps a single simulation object,
  \<^verbatim>\<open>exito_sistema\<close>, at module level. The handler \<^verbatim>\<open>proyectar\<close> writes the two
  inputs into that object, asks it to compute, reads the output, and derives a
  financial projection and a three-way band.

  Python floats are modelled as \<^typ>\<open>real\<close>: comparisons against the literals 35 and 75
  and the division by 50.0 are read as the exact operations. An exception is a value
  of type \<open>error\<close>; a computation that may raise returns \<open>error + 'a\<close>, with \<open>Inl\<close>
  the exception.
\<close>

datatype error = ValueError | KeyError | ZeroDivisionError

text \<open>Python's \<^verbatim>\<open>x / y\<close> on floats: it raises when the divisor is zero.\<close>

definition truediv :: "real \<Rightarrow> real \<Rightarrow> error + real" where
  "truediv x y = (if y = 0 then Inl ZeroDivisionError else Inr (x / y))"

text \<open>
  Modelled from the spec: the simulation object, an instance of scikit-fuzzy's
  \<^verbatim>\<open>ControlSystemSimulation\<close>, whose code is not in the repository. As the spec's
  evaluation session does, it holds the crisp input value of each antecedent and the
  crisp output of the consequent, keyed by the variable's label: the item assignments
  of lines 80-81 store a value under its label, and line 85 reads one. \<open>exito_sistema\<close>
  is the object when the module has just been imported (line 63): nothing has been
  written yet.
\<close>

record simulation =
  sim_input :: "string \<rightharpoonup> real"
  sim_output :: "string \<rightharpoonup> real"

definition exito_sistema :: simulation where
  "exito_sistema = \<lparr>sim_input = Map.empty, sim_output = Map.empty\<rparr>"

text \<open>
  Modelled from the spec: \<^verbatim>\<open>exito_sistema.compute()\<close>, a method of the same library
  object, not in the repository. The inference of the control system built at lines
  41-62 is the parameter \<open>engine\<close>. It is handed the whole simulation, as the method
  is, and answers with an exception or with the crisp value of \<^verbatim>\<open>exito_potencial\<close>:
  nothing is fixed about what it reads of the object. What the method does to the
  object is taken from the spec's session: the inputs stay as they are, a crisp value
  is stored as the output \<^verbatim>\<open>output['exito_potencial']\<close>, where line 85 reads it, and
  a call that raises stores nothing.
\<close>

type_synonym engine = "simulation \<Rightarrow> error + real"

definition compute :: "engine \<Rightarrow> simulation \<Rightarrow> (error + unit) \<times> simulation" where
  "compute eng sim =
     (case eng sim of
        Inl e \<Rightarrow> (Inl e, sim)
      | Inr v \<Rightarrow> (Inr (), sim\<lparr>sim_output := (sim_output sim)(''exito_potencial'' \<mapsto> v)\<rparr>))"

section \<open>The handler \<^verbatim>\<open>proyectar\<close>\<close>

text \<open>
  What \<^verbatim>\<open>render_template('resultado.html', ...)\<close> receives: either only an error
  message, or the fields of a result. The three numbers that the source formats with
  \<^verbatim>\<open>:.1f\<close> and \<^verbatim>\<open>:.2f\<close> are kept as numbers. Text outside ASCII is written as its
  UTF-8 bytes.
\<close>

record resultado =
  atractivo :: real
  disponibilidad :: real
  inversion :: real
  exito_porcentaje :: real
  nivel_texto :: string
  color_clase :: string
  mensaje_clave :: string
  retorno_proyectado :: real
  ganancia_neta :: real

datatype response = Error_page string | Resultado_page resultado

definition error_numerico :: string where
  "error_numerico =
     ''Error: Por favor, ingrese valores num'' @ [CHR 0xC3, CHR 0xA9] @ ''ricos v''
       @ [CHR 0xC3, CHR 0xA1] @ ''lidos.''"

definition error_calculo :: string where
  "error_calculo = ''Error al calcular el potencial. Verifique los rangos de entrada.''"

text \<open>
  Lines 96-102: the return factor, the projected return and the net gain, in the order
  the source computes them.
\<close>

definition proyeccion_retorno :: "real \<Rightarrow> real \<Rightarrow> error + (real \<times> real \<times> real)" where
  "proyeccion_retorno exito inversion_val =
     (case truediv exito 50 of
        Inl e \<Rightarrow> Inl e
      | Inr factor_retorno \<Rightarrow>
          (let retorno = inversion_val * factor_retorno;
               ganancia = retorno - inversion_val
           in Inr (factor_retorno, retorno, ganancia)))"

text \<open>Lines 105-116: the \<^verbatim>\<open>if\<close>/\<^verbatim>\<open>elif\<close>/\<^verbatim>\<open>else\<close> chain that picks the band.\<close>

definition clasificar :: "real \<Rightarrow> string \<times> string \<times> string" where
  "clasificar exito =
     (if exito < 35 then
        (''Bajo'', ''text-red-600 border-red-600 bg-red-50'',
         ''Riesgo alto. Se recomienda revisar el Atractivo o la Disponibilidad.'')
      else if exito < 75 then
        (''Moderado'', ''text-yellow-600 border-yellow-600 bg-yellow-50'',
         ''Potencial equilibrado. Se sugiere optimizar la Disponibilidad.'')
      else
        (''Alto'', ''text-green-600 border-green-600 bg-green-50'',
         [CHR 0xC2, CHR 0xA1] @ ''Excelente proyecci'' @ [CHR 0xC3, CHR 0xB3]
           @ ''n! Continuar con la estrategia actual.''))"

text \<open>
  The handler, lines 70-129. Each form field arrives as the result of \<^verbatim>\<open>float(...)\<close>:
  \<open>None\<close> when the text is not a number, which the first \<^verbatim>\<open>except ValueError\<close> turns
  into an error page before the simulation is touched. The second \<^verbatim>\<open>except\<close> catches
  a \<^verbatim>\<open>ValueError\<close> of \<^verbatim>\<open>compute\<close> only; any other exception leaves the handler
  (\<open>Inl\<close>). The simulation is threaded through, since it is the module's global.
\<close>

definition proyectar ::
  "engine \<Rightarrow> simulation \<Rightarrow> real option \<times> real option \<times> real option
     \<Rightarrow> (error + response) \<times> simulation" where
  "proyectar eng sim form =
     (case form of
        (Some atractivo_val, Some disponibilidad_val, Some inversion_val) \<Rightarrow>
          (let sim1 = sim\<lparr>sim_input := (sim_input sim)(''atractivo'' \<mapsto> atractivo_val)\<rparr>;
               sim2 = sim1\<lparr>sim_input := (sim_input sim1)(''disponibilidad'' \<mapsto> disponibilidad_val)\<rparr>
           in case compute eng sim2 of
                (Inl ValueError, sim3) \<Rightarrow> (Inr (Error_page error_calculo), sim3)
              | (Inl e, sim3) \<Rightarrow> (Inl e, sim3)
              | (Inr u, sim3) \<Rightarrow>
                  (case sim_output sim3 ''exito_potencial'' of
                     None \<Rightarrow> (Inl KeyError, sim3)
                   | Some exito \<Rightarrow>
                       (case proyeccion_retorno exito inversion_val of
                          Inl e \<Rightarrow> (Inl e, sim3)
                        | Inr (factor_retorno, retorno, ganancia) \<Rightarrow>
                            (case clasificar exito of
                               (nivel, color, mensaje) \<Rightarrow>
                                 (Inr (Resultado_page
                                    \<lparr>atractivo = atractivo_val,
                                     disponibilidad = disponibilidad_val,
                                     inversion = inversion_val,
                                     exito_porcentaje = exito,
                                     nivel_texto = nivel,
                                     color_clase = color,
                                     mensaje_clave = mensaje,
                                     retorno_proyectado = retorno,
                                     ganancia_neta = ganancia\<rparr>), sim3)))))
      | _ \<Rightarrow> (Inr (Error_page error_numerico), sim))"

text \<open>
  The requests a process serves one after another, each by \<open>proyectar\<close> on the simulation
  the previous one left behind.
\<close>

fun serve ::
  "engine \<Rightarrow> simulation \<Rightarrow> (real option \<times> real option \<times> real option) list \<Rightarrow> simulation" where
  "serve eng sim [] = sim"
| "serve eng sim (form # forms) = serve eng (snd (proyectar eng sim form)) forms"

section \<open>The triangular membership function\<close>

text \<open>
  Lines 25-37 give every term of the three variables its shape: the list \<^verbatim>\<open>[a, b, c]\<close>
  passed to \<^verbatim>\<open>fuzz.trimf\<close>, under the term's label.
\<close>

definition atractivo_terms :: "(string \<times> real \<times> real \<times> real) list" where
  "atractivo_terms =
     [(''bajo'', (0, 0, 5)), (''promedio'', (3, 6, 9)), (''sobresaliente'', (7, 10, 10))]"

definition disponibilidad_terms :: "(string \<times> real \<times> real \<times> real) list" where
  "disponibilidad_terms =
     [(''limitada'', (1, 1, 50)), (''adecuada'', (30, 70, 90)), (''abundante'', (70, 100, 100))]"

definition exito_potencial_terms :: "(string \<times> real \<times> real \<times> real) list" where
  "exito_potencial_terms =
     [(''bajo'', (0, 15, 30)), (''moderado'', (20, 50, 80)), (''alto'', (70, 90, 100))]"

text \<open>
  Modelled from the spec: \<^verbatim>\<open>clamp01\<close>, the clamp of a value to the unit interval that
  the membership function's evaluation ends with (it belongs to scikit-fuzzy's
  \<^verbatim>\<open>fuzz.trimf\<close>, whose code is not in the repository).
\<close>

definition clamp01 :: "real \<Rightarrow> real" where
  "clamp01 y = max 0 (min 1 y)"

text \<open>
  Modelled from the spec: the evaluation of a triangular membership function, which
  the source leaves to scikit-fuzzy's \<^verbatim>\<open>fuzz.trimf\<close> (not in the repository). The
  function is 0 outside \<open>[a, c]\<close>, rises linearly from 0 at \<open>a\<close> to 1 at \<open>b\<close>, falls
  linearly from 1 at \<open>b\<close> to 0 at \<open>c\<close>, and the value is clamped to the unit interval.
  A segment of zero width is a step to 1 (or from 1) and is never divided by. The two
  divisions are Python divisions, which raise on a zero divisor.
\<close>

definition evaluate :: "real \<times> real \<times> real \<Rightarrow> real \<Rightarrow> error + real" where
  "evaluate abc x =
     (case abc of (a, b, c) \<Rightarrow>
        if x < a \<or> c < x then Inr 0
        else if x \<le> b then
          (if b - a = 0 then Inr 1 else map_sum id clamp01 (truediv (x - a) (b - a)))
        else
          (if c - b = 0 then Inr 1 else map_sum id clamp01 (truediv (c - x) (c - b))))"

text \<open>
  Modelled from the spec: \<^verbatim>\<open>fuzz.trimf(universe, [a, b, c])\<close> as the source calls it,
  the membership function sampled at every point of an array; the first evaluation that
  raises ends the call.
\<close>

fun trimf :: "real list \<Rightarrow> real \<times> real \<times> real \<Rightarrow> error + real list" where
  "trimf [] abc = Inr []"
| "trimf (x # xs) abc =
     (case evaluate abc x of
        Inl e \<Rightarrow> Inl e
      | Inr y \<Rightarrow> (case trimf xs abc of Inl e \<Rightarrow> Inl e | Inr ys \<Rightarrow> Inr (y # ys)))"

text \<open>
  Modelled from the spec: the degree of one term of a variable at a crisp value, as
  fuzzification computes it (inside scikit-fuzzy, not in the repository): the term is
  looked up by its label, a \<^verbatim>\<open>KeyError\<close> when the variable has no such term, and its
  membership function is evaluated at the value.
\<close>

definition membership ::
  "(string \<times> real \<times> real \<times> real) list \<Rightarrow> string \<Rightarrow> real \<Rightarrow> error + real" where
  "membership terms name x =
     (case map_of terms name of None \<Rightarrow> Inl KeyError | Some abc \<Rightarrow> evaluate abc x)"

section \<open>The response of a call\<close>

lemma proyeccion_retorno_eq:
  "proyeccion_retorno p i = Inr (p / 50, i * (p / 50), i * (p / 50) - i)"
  by (simp add: proyeccion_retorno_def truediv_def Let_def)

text \<open>
  The first component of \<open>proyectar\<close>, by what the engine answers on the simulation
  that lines 80-81 leave.
\<close>

lemma fst_proyectar_inputs:
  "fst (proyectar eng sim (Some a, Some d, Some i)) =
     (case eng (sim\<lparr>sim_input := (sim_input sim)(''atractivo'' \<mapsto> a, ''disponibilidad'' \<mapsto> d)\<rparr>) of
        Inl ValueError \<Rightarrow> Inr (Error_page error_calculo)
      | Inl e \<Rightarrow> Inl e
      | Inr p \<Rightarrow> Inr (Resultado_page
             \<lparr>atractivo = a, disponibilidad = d, inversion = i, exito_porcentaje = p,
              nivel_texto = fst (clasificar p),
              color_clase = fst (snd (clasificar p)),
              mensaje_clave = snd (snd (clasificar p)),
              retorno_proyectado = i * (p / 50),
              ganancia_neta = i * (p / 50) - i\<rparr>))"
  by (simp add: proyectar_def compute_def Let_def proyeccion_retorno_eq
      split: sum.splits error.splits prod.splits)

lemma proyectar_ok:
  assumes "eng (sim\<lparr>sim_input := (sim_input sim)(''atractivo'' \<mapsto> a, ''disponibilidad'' \<mapsto> d)\<rparr>) = Inr p"
  shows "fst (proyectar eng sim (Some a, Some d, Some i)) =
           Inr (Resultado_page
             \<lparr>atractivo = a, disponibilidad = d, inversion = i, exito_porcentaje = p,
              nivel_texto = fst (clasificar p),
              color_clase = fst (snd (clasificar p)),
              mensaje_clave = snd (snd (clasificar p)),
              retorno_proyectado = i * (p / 50),
              ganancia_neta = i * (p / 50) - i\<rparr>)"
  using assms by (simp add: fst_proyectar_inputs)

text \<open>
  C4. The band of a success percentage has half-open boundaries, 35 and 75 belonging
  to the upper band: whenever the engine, run on the simulation that holds the two
  inputs of the call, returns the percentage \<open>p\<close>, the page
  \<open>proyectar\<close> renders carries \<open>p\<close> and the level \<^verbatim>\<open>Bajo\<close> exactly when \<open>p < 35\<close>,
  \<^verbatim>\<open>Moderado\<close> exactly when \<open>35 \<le> p < 75\<close>, and \<^verbatim>\<open>Alto\<close> exactly when \<open>75 \<le> p\<close>; in
  particular 35 and 74.999 are \<^verbatim>\<open>Moderado\<close> and 75 is \<^verbatim>\<open>Alto\<close>.
\<close>

theorem bands_half_open:
  assumes "eng (sim\<lparr>sim_input := (sim_input sim)(''atractivo'' \<mapsto> a, ''disponibilidad'' \<mapsto> d)\<rparr>) = Inr p"
  shows "\<exists>r. fst (proyectar eng sim (Some a, Some d, Some i)) = Inr (Resultado_page r)
           \<and> exito_porcentaje r = p
           \<and> (nivel_texto r = ''Bajo'' \<longleftrightarrow> p < 35)
           \<and> (nivel_texto r = ''Moderado'' \<longleftrightarrow> 35 \<le> p \<and> p < 75)
           \<and> (nivel_texto r = ''Alto'' \<longleftrightarrow> 75 \<le> p)
           \<and> fst (clasificar 35) = ''Moderado''
           \<and> fst (clasificar 74.999) = ''Moderado''
           \<and> fst (clasificar 75) = ''Alto''"
  using proyectar_ok [of eng sim a d p i] assms by (simp add: clasificar_def)

theorem bands_half_open_witness:
  "\<exists>r. fst (proyectar (\<lambda>m. Inr 35) exito_sistema (Some 5, Some 50, Some 1000))
          = Inr (Resultado_page r)
       \<and> exito_porcentaje r = 35 \<and> nivel_texto r = ''Moderado''"
  using bands_half_open [of "\<lambda>m. Inr 35" exito_sistema 5 50 35 1000] by auto

text \<open>
  C5. The return projection never raises and is given by the three formulas: for every
  success percentage \<open>p\<close> and investment \<open>i\<close> the return factor is \<open>p / 50\<close>, the
  projected return \<open>i * (p / 50)\<close> and the net gain the projected return minus \<open>i\<close>;
  at \<open>p = 50\<close>, \<open>i = 1000\<close> they are 1, 1000 and 0. Whenever the engine returns \<open>p\<close>,
  the page \<open>proyectar\<close> renders carries this projected return and net gain.
\<close>

theorem return_projection:
  "proyeccion_retorno p i = Inr (p / 50, i * (p / 50), i * (p / 50) - i)
   \<and> proyeccion_retorno 50 1000 = Inr (1, 1000, 0)
   \<and> (\<forall>eng sim a d.
         eng (sim\<lparr>sim_input := (sim_input sim)(''atractivo'' \<mapsto> a, ''disponibilidad'' \<mapsto> d)\<rparr>) = Inr p \<longrightarrow>
         (\<exists>r. fst (proyectar eng sim (Some a, Some d, Some i)) = Inr (Resultado_page r)
            \<and> retorno_proyectado r = i * (p / 50)
            \<and> ganancia_neta r = i * (p / 50) - i))"
proof -
  have "proyeccion_retorno 50 1000 = Inr (1, 1000, 0)"
    by (simp add: proyeccion_retorno_eq)
  moreover have "\<exists>r. fst (proyectar eng sim (Some a, Some d, Some i)) = Inr (Resultado_page r)
            \<and> retorno_proyectado r = i * (p / 50)
            \<and> ganancia_neta r = i * (p / 50) - i"
    if "eng (sim\<lparr>sim_input := (sim_input sim)(''atractivo'' \<mapsto> a, ''disponibilidad'' \<mapsto> d)\<rparr>) = Inr p"
    for eng sim a d
    using proyectar_ok [of eng sim a d p i] that by simp
  ultimately show ?thesis
    using proyeccion_retorno_eq by blast
qed

theorem return_projection_witness:
  "\<exists>r. fst (proyectar (\<lambda>m. Inr 50) exito_sistema (Some 5, Some 50, Some 1000))
          = Inr (Resultado_page r)
       \<and> retorno_proyectado r = 1000 \<and> ganancia_neta r = 0"
  using return_projection [of 50 1000] by simp

section \<open>The simulation across calls\<close>









text \<open>
  The condition on the engine is needed: the output store outlives a call, and an
  engine that reads it answers a second call differently from a first one.
\<close>

lemma stale_output_read:
  "fst (proyectar (\<lambda>s. case sim_output s ''exito_potencial'' of None \<Rightarrow> Inr 10 | Some v \<Rightarrow> Inr (v + 1))
          (serve (\<lambda>s. case sim_output s ''exito_potencial'' of None \<Rightarrow> Inr 10 | Some v \<Rightarrow> Inr (v + 1))
             exito_sistema [(Some 1, Some 1, Some 1000)])
          (Some 1, Some 1, Some 1000))
   \<noteq> fst (proyectar (\<lambda>s. case sim_output s ''exito_potencial'' of None \<Rightarrow> Inr 10 | Some v \<Rightarrow> Inr (v + 1))
          exito_sistema (Some 1, Some 1, Some 1000))"
  by (simp add: proyectar_def compute_def exito_sistema_def Let_def proyeccion_retorno_eq
      split: prod.splits)




section \<open>Shape of the membership function\<close>

lemma evaluate_closed_form:
  "evaluate (a, b, c) x =
     Inr (if x < a \<or> c < x then 0
          else if x \<le> b then (if b = a then 1 else clamp01 ((x - a) / (b - a)))
          else (if c = b then 1 else clamp01 ((c - x) / (c - b))))"
  by (simp add: evaluate_def truediv_def)

lemma evaluate_total: "\<exists>y. evaluate abc x = Inr y"
  by (cases abc) (simp add: evaluate_closed_form)

lemma clamp01_id: "0 \<le> y \<Longrightarrow> y \<le> 1 \<Longrightarrow> clamp01 y = y"
  by (simp add: clamp01_def)

lemma clamp01_range: "0 \<le> clamp01 y \<and> clamp01 y \<le> 1"
  by (simp add: clamp01_def)

lemma evaluate_rising:
  assumes "a < b" "a \<le> x" "x \<le> b" "b \<le> c"
  shows "evaluate (a, b, c) x = Inr ((x - a) / (b - a))"
proof -
  have "0 \<le> (x - a) / (b - a)" "(x - a) / (b - a) \<le> 1"
    using assms by (simp_all add: divide_le_eq)
  then show ?thesis
    using assms by (simp add: evaluate_closed_form clamp01_id)
qed

lemma evaluate_falling:
  assumes "b < c" "b \<le> x" "x \<le> c" "a \<le> b"
  shows "evaluate (a, b, c) x = Inr ((c - x) / (c - b))"
proof (cases "x = b")
  case True
  with assms show ?thesis
    by (simp add: evaluate_closed_form clamp01_def)
next
  case False
  with assms have xb: "b < x" by simp
  have "0 \<le> (c - x) / (c - b)" "(c - x) / (c - b) \<le> 1"
    using assms by (simp_all add: divide_le_eq)
  with xb assms show ?thesis
    by (simp add: evaluate_closed_form clamp01_id)
qed

lemma evaluate_peak: "a \<le> b \<Longrightarrow> b \<le> c \<Longrightarrow> evaluate (a, b, c) b = Inr 1"
  by (simp add: evaluate_closed_form clamp01_def)

lemma evaluate_outside: "x < a \<or> c < x \<Longrightarrow> evaluate (a, b, c) x = Inr 0"
  by (simp add: evaluate_closed_form)

lemma evaluate_unit: "\<exists>y. evaluate (a, b, c) x = Inr y \<and> 0 \<le> y \<and> y \<le> 1"
  by (simp add: evaluate_closed_form clamp01_range)

lemma evaluate_rising_mono:
  assumes "a \<le> b" "b \<le> c" "a \<le> u" "u \<le> v" "v \<le> b"
    "evaluate (a, b, c) u = Inr yu" "evaluate (a, b, c) v = Inr yv"
  shows "yu \<le> yv"
proof (cases "a = b")
  case True
  with assms have "u = v" by simp
  with assms show ?thesis by simp
next
  case False
  with assms have ab: "a < b" by simp
  have "yu = (u - a) / (b - a)" "yv = (v - a) / (b - a)"
    using evaluate_rising [OF ab, of u c] evaluate_rising [OF ab, of v c] assms by simp_all
  with ab assms show ?thesis
    by (simp add: divide_right_mono)
qed

lemma evaluate_falling_mono:
  assumes "a \<le> b" "b \<le> c" "b \<le> u" "u \<le> v" "v \<le> c"
    "evaluate (a, b, c) u = Inr yu" "evaluate (a, b, c) v = Inr yv"
  shows "yv \<le> yu"
proof (cases "b = c")
  case True
  with assms have "u = v" by simp
  with assms show ?thesis by simp
next
  case False
  with assms have bc: "b < c" by simp
  have "yu = (c - u) / (c - b)" "yv = (c - v) / (c - b)"
    using evaluate_falling [OF bc, of u a] evaluate_falling [OF bc, of v a] assms by simp_all
  with bc assms show ?thesis
    by (simp add: divide_right_mono)
qed

lemma trimf_total: "\<exists>ys. trimf xs abc = Inr ys \<and> length ys = length xs"
proof (induction xs)
  case Nil
  show ?case by simp
next
  case (Cons x xs)
  obtain y where "evaluate abc x = Inr y"
    using evaluate_total by blast
  with Cons show ?case by auto
qed

text \<open>
  C6. A triangular membership function with \<open>a \<le> b \<le> c\<close> evaluates at every real \<open>x\<close>
  to a degree between 0 and 1; the degree is 0 outside \<open>[a, c]\<close> and 1 at \<open>b\<close>; it does
  not decrease on \<open>[a, b]\<close>, where it is the line \<open>(x - a) / (b - a)\<close> when \<open>a < b\<close>, and
  does not increase on \<open>[b, c]\<close>, where it is the line \<open>(c - x) / (c - b)\<close> when \<open>b < c\<close>.
\<close>

theorem triangular_shape:
  assumes "a \<le> b" and "b \<le> c"
  shows "(\<exists>y. evaluate (a, b, c) x = Inr y \<and> 0 \<le> y \<and> y \<le> 1)
       \<and> (x < a \<or> c < x \<longrightarrow> evaluate (a, b, c) x = Inr 0)
       \<and> evaluate (a, b, c) b = Inr 1
       \<and> (\<forall>u v yu yv. a \<le> u \<and> u \<le> v \<and> v \<le> b
             \<and> evaluate (a, b, c) u = Inr yu \<and> evaluate (a, b, c) v = Inr yv \<longrightarrow> yu \<le> yv)
       \<and> (\<forall>u v yu yv. b \<le> u \<and> u \<le> v \<and> v \<le> c
             \<and> evaluate (a, b, c) u = Inr yu \<and> evaluate (a, b, c) v = Inr yv \<longrightarrow> yv \<le> yu)
       \<and> (a < b \<and> a \<le> x \<and> x \<le> b \<longrightarrow> evaluate (a, b, c) x = Inr ((x - a) / (b - a)))
       \<and> (b < c \<and> b \<le> x \<and> x \<le> c \<longrightarrow> evaluate (a, b, c) x = Inr ((c - x) / (c - b)))"
proof (intro conjI)
  show "\<exists>y. evaluate (a, b, c) x = Inr y \<and> 0 \<le> y \<and> y \<le> 1"
    by (rule evaluate_unit)
  show "x < a \<or> c < x \<longrightarrow> evaluate (a, b, c) x = Inr 0"
    by (simp add: evaluate_outside)
  show "evaluate (a, b, c) b = Inr 1"
    using assms by (rule evaluate_peak)
  show "\<forall>u v yu yv. a \<le> u \<and> u \<le> v \<and> v \<le> b
          \<and> evaluate (a, b, c) u = Inr yu \<and> evaluate (a, b, c) v = Inr yv \<longrightarrow> yu \<le> yv"
    using evaluate_rising_mono [OF assms] by blast
  show "\<forall>u v yu yv. b \<le> u \<and> u \<le> v \<and> v \<le> c
          \<and> evaluate (a, b, c) u = Inr yu \<and> evaluate (a, b, c) v = Inr yv \<longrightarrow> yv \<le> yu"
    using evaluate_falling_mono [OF assms] by blast
  show "a < b \<and> a \<le> x \<and> x \<le> b \<longrightarrow> evaluate (a, b, c) x = Inr ((x - a) / (b - a))"
    using assms evaluate_rising by blast
  show "b < c \<and> b \<le> x \<and> x \<le> c \<longrightarrow> evaluate (a, b, c) x = Inr ((c - x) / (c - b))"
    using assms evaluate_falling by blast
qed

text \<open>The shape \<open>[3, 6, 9]\<close> of \<^verbatim>\<open>promedio\<close>, at its peak, outside and half way up and down.\<close>

theorem triangular_shape_witness:
  "(3::real) \<le> 6 \<and> (6::real) \<le> 9
   \<and> evaluate (3, 6, 9) 6 = Inr 1
   \<and> evaluate (3, 6, 9) 10 = Inr 0
   \<and> evaluate (3, 6, 9) (9 / 2) = Inr (1 / 2)
   \<and> evaluate (3, 6, 9) (15 / 2) = Inr (1 / 2)"
proof -
  have ab: "(3::real) \<le> 6" and bc: "(6::real) \<le> 9"
    by simp_all
  have up: "(3::real) < 6 \<and> (3::real) \<le> 9 / 2 \<and> 9 / 2 \<le> (6::real)"
    and down: "(6::real) < 9 \<and> (6::real) \<le> 15 / 2 \<and> 15 / 2 \<le> (9::real)"
    and out: "(10::real) < 3 \<or> (9::real) < 10"
    by simp_all
  have "evaluate (3, 6, 9) 6 = Inr 1"
    using triangular_shape [OF ab bc, of 6] by blast
  moreover have "evaluate (3, 6, 9) 10 = Inr 0"
    using triangular_shape [OF ab bc, of 10] out by blast
  moreover have "evaluate (3, 6, 9) (9 / 2) = Inr ((9 / 2 - 3) / (6 - 3))"
    using triangular_shape [OF ab bc, of "9 / 2"] up by blast
  moreover have "evaluate (3, 6, 9) (15 / 2) = Inr ((9 - 15 / 2) / (9 - 6))"
    using triangular_shape [OF ab bc, of "15 / 2"] down by blast
  ultimately show ?thesis
    by simp
qed

text \<open>
  C7. Evaluation of a triangular membership function never raises, whatever the shape
  and the point, and so does sampling it over an array: no division by zero happens
  when \<open>a = b\<close> or \<open>b = c\<close>. A zero-width rising segment is a step to 1 (0 left of \<open>a\<close>,
  1 at \<open>a\<close>) and a zero-width falling segment a step from 1 (1 at \<open>c\<close>, 0 right of
  \<open>c\<close>). The four degenerate terms of the source, \<^verbatim>\<open>bajo\<close> \<open>[0, 0, 5]\<close>,
  \<^verbatim>\<open>sobresaliente\<close> \<open>[7, 10, 10]\<close>, \<^verbatim>\<open>limitada\<close> \<open>[1, 1, 50]\<close> and \<^verbatim>\<open>abundante\<close>
  \<open>[70, 100, 100]\<close>, have a degree at every point, and degree 1 at their step.
\<close>

theorem degenerate_shapes_total:
  "(\<exists>y. evaluate abc x = Inr y)
   \<and> (\<exists>ys. trimf xs abc = Inr ys \<and> length ys = length xs)
   \<and> (a \<le> c \<longrightarrow> evaluate (a, a, c) a = Inr 1)
   \<and> (x < a \<longrightarrow> evaluate (a, a, c) x = Inr 0)
   \<and> (a \<le> c \<longrightarrow> evaluate (a, c, c) c = Inr 1)
   \<and> (c < x \<longrightarrow> evaluate (a, c, c) x = Inr 0)
   \<and> (\<exists>y. membership atractivo_terms ''bajo'' x = Inr y)
   \<and> (\<exists>y. membership atractivo_terms ''sobresaliente'' x = Inr y)
   \<and> (\<exists>y. membership disponibilidad_terms ''limitada'' x = Inr y)
   \<and> (\<exists>y. membership disponibilidad_terms ''abundante'' x = Inr y)
   \<and> membership atractivo_terms ''bajo'' 0 = Inr 1
   \<and> membership atractivo_terms ''sobresaliente'' 10 = Inr 1
   \<and> membership disponibilidad_terms ''limitada'' 1 = Inr 1
   \<and> membership disponibilidad_terms ''abundante'' 100 = Inr 1"
proof (intro conjI)
  show "\<exists>y. evaluate abc x = Inr y"
    by (rule evaluate_total)
  show "\<exists>ys. trimf xs abc = Inr ys \<and> length ys = length xs"
    by (rule trimf_total)
  show "a \<le> c \<longrightarrow> evaluate (a, a, c) a = Inr 1"
    by (simp add: evaluate_peak)
  show "x < a \<longrightarrow> evaluate (a, a, c) x = Inr 0"
    by (simp add: evaluate_outside)
  show "a \<le> c \<longrightarrow> evaluate (a, c, c) c = Inr 1"
    by (simp add: evaluate_peak)
  show "c < x \<longrightarrow> evaluate (a, c, c) x = Inr 0"
    by (simp add: evaluate_outside)
  show "\<exists>y. membership atractivo_terms ''bajo'' x = Inr y"
    by (simp add: membership_def atractivo_terms_def evaluate_total)
  show "\<exists>y. membership atractivo_terms ''sobresaliente'' x = Inr y"
    by (simp add: membership_def atractivo_terms_def evaluate_total)
  show "\<exists>y. membership disponibilidad_terms ''limitada'' x = Inr y"
    by (simp add: membership_def disponibilidad_terms_def evaluate_total)
  show "\<exists>y. membership disponibilidad_terms ''abundante'' x = Inr y"
    by (simp add: membership_def disponibilidad_terms_def evaluate_total)
  show "membership atractivo_terms ''bajo'' 0 = Inr 1"
    by (simp add: membership_def atractivo_terms_def evaluate_peak)
  show "membership atractivo_terms ''sobresaliente'' 10 = Inr 1"
    by (simp add: membership_def atractivo_terms_def evaluate_peak)
  show "membership disponibilidad_terms ''limitada'' 1 = Inr 1"
    by (simp add: membership_def disponibilidad_terms_def evaluate_peak)
  show "membership disponibilidad_terms ''abundante'' 100 = Inr 1"
    by (simp add: membership_def disponibilidad_terms_def evaluate_peak)
qed

text \<open>The steps of \<^verbatim>\<open>bajo\<close> at 0 and of \<^verbatim>\<open>abundante\<close> at 100.\<close>

theorem degenerate_shapes_total_witness:
  "evaluate (0, 0, 5) 0 = Inr 1 \<and> evaluate (0, 0, 5) (- 1) = Inr 0
   \<and> evaluate (70, 100, 100) 100 = Inr 1 \<and> evaluate (70, 100, 100) 101 = Inr 0"
proof -
  have le1: "(0::real) \<le> 5" and lt1: "(- 1::real) < 0"
    and le2: "(70::real) \<le> 100" and lt2: "(100::real) < 101"
    by simp_all
  have "evaluate (0, 0, 5) 0 = Inr 1"
    using degenerate_shapes_total [of "(0, 0, 5)" "- 1" "[]" 0 5] le1 by blast
  moreover have "evaluate (0, 0, 5) (- 1) = Inr 0"
    using degenerate_shapes_total [of "(0, 0, 5)" "- 1" "[]" 0 5] lt1 by blast
  moreover have "evaluate (70, 100, 100) 100 = Inr 1"
    using degenerate_shapes_total [of "(70, 100, 100)" 101 "[]" 70 100] le2 by blast
  moreover have "evaluate (70, 100, 100) 101 = Inr 0"
    using degenerate_shapes_total [of "(70, 100, 100)" 101 "[]" 70 100] lt2 by blast
  ultimately show ?thesis
    by simp
qed

end
